theory Spec2Isabelle
  imports Main
begin

section \<open>Python values, exceptions and the world outside the tools\<close>

text \<open>
  The module \<^verbatim>\<open>backend-langchain/tools.py\<close> defines six functions that an agent may
  call. Python is dynamically typed, so the values that travel through the functions are
  modelled by one datatype: the source only ever handles \<^verbatim>\<open>None\<close>, strings and
  integers.
\<close>

datatype pyval = PyNone | PyStr string | PyInt int

text \<open>
  The exceptions that can leave a tool: Python's own \<^verbatim>\<open>TypeError\<close> when a call does
  not fit the \<^verbatim>\<open>def\<close> line (a required parameter is missing, or a keyword is not a
  parameter), whatever \<^verbatim>\<open>requests.get\<close> raises when no response arrives, and the
  \<^verbatim>\<open>ValueError\<close> with which a class refuses the arguments of its constructor. No
  function of the module has a \<^verbatim>\<open>try\<close> block, so an exception always propagates.
\<close>

datatype error =
    TypeError_missing "string list"
  | TypeError_unexpected string
  | RequestException string
  | ValueError string

text \<open>
  A dict literal is an association list in insertion order. A request is the URL and the
  \<^verbatim>\<open>params\<close> argument of \<^verbatim>\<open>requests.get\<close> (\<open>None\<close> when the call passes no
  \<^verbatim>\<open>params\<close>). Of the response object the source reads the attribute \<^verbatim>\<open>text\<close> only.
\<close>

type_synonym params = "(string \<times> pyval) list"

type_synonym request = "string \<times> params option"

record response =
  status_code :: int
  resp_text :: string

text \<open>
  What a tool does besides returning: it sends HTTP requests and prints to standard
  output. An outcome is the returned value (or the exception raised) together with the
  effects, in program order.
\<close>

datatype effect = HttpGet request | Print string

record outcome =
  returned :: "error + pyval"
  effects :: "effect list"

text \<open>
  The module \<^verbatim>\<open>config\<close> is imported by the source but is not part of it, so its two
  attributes are parameters of the model. Their type follows the specification
  (``a database description string, a backend base URL'').
\<close>

record config =
  DATABASE_DESCR :: string
  BACKEND_URL :: string

text \<open>
  The world a tool runs in: the process environment read by \<^verbatim>\<open>os.environ.get\<close>, and
  the network as seen through \<^verbatim>\<open>requests.get\<close>, which for a request either raises or
  yields a response (of any status: the source never inspects it).
\<close>

record world =
  environ :: "string \<Rightarrow> string option"
  backend :: "request \<Rightarrow> error + response"

definition requests_made :: "outcome \<Rightarrow> request list" where
  "requests_made out = concat (map (\<lambda>e. case e of HttpGet r \<Rightarrow> [r] | Print _ \<Rightarrow> []) (effects out))"

definition returns_str :: "outcome \<Rightarrow> bool" where
  "returns_str out = (case returned out of Inr (PyStr _) \<Rightarrow> True | _ \<Rightarrow> False)"


section \<open>The tools\<close>

subsection \<open>\<^verbatim>\<open>get_db_info\<close>\<close>

definition get_db_info :: "config \<Rightarrow> world \<Rightarrow> outcome" where
  "get_db_info cfg w = \<lparr>returned = Inr (PyStr (DATABASE_DESCR cfg)), effects = []\<rparr>"

subsection \<open>\<^verbatim>\<open>get_machine_data\<close>\<close>

text \<open>
  The parameters of a telemetry tool, once bound, as a record. Both telemetry tools
  start with the two timestamps.
\<close>

record time_args =
  from_timestamp :: pyval
  to_timestamp :: pyval

record machine_args = time_args +
  min_comb_op_tmp_1 :: pyval
  max_comb_op_tmp_1 :: pyval
  min_comb_op_tmp_2 :: pyval
  max_comb_op_tmp_2 :: pyval
  min_comb_op_tmp_3 :: pyval
  max_comb_op_tmp_3 :: pyval
  min_material_pressure :: pyval
  max_material_pressure :: pyval
  min_material_temperature :: pyval
  max_material_temperature :: pyval
  min_motor_rpm :: pyval
  max_motor_rpm :: pyval

text \<open>
  The body: one \<^verbatim>\<open>requests.get\<close> on the machine endpoint with a \<^verbatim>\<open>params\<close> dict
  of fourteen entries, then \<^verbatim>\<open>print(results.text)\<close> and \<^verbatim>\<open>return results.text\<close>.
  When \<^verbatim>\<open>requests.get\<close> raises, the request has been attempted and the exception
  leaves the function.
\<close>

definition get_machine_data :: "config \<Rightarrow> world \<Rightarrow> machine_args \<Rightarrow> outcome" where
  "get_machine_data cfg w a =
     (let req = (BACKEND_URL cfg @ ''/machine'', Some [
            (''from_ts'', from_timestamp a),
            (''to_ts'', to_timestamp a),
            (''min_comb_op_tmp_1'', min_comb_op_tmp_1 a),
            (''max_comb_op_tmp_1'', max_comb_op_tmp_1 a),
            (''min_comb_op_tmp_2'', min_comb_op_tmp_2 a),
            (''max_comb_op_tmp_2'', max_comb_op_tmp_2 a),
            (''min_comb_op_tmp_3'', min_comb_op_tmp_3 a),
            (''max_comb_op_tmp_3'', max_comb_op_tmp_3 a),
            (''min_material_pressure'', min_material_pressure a),
            (''max_material_pressure'', max_material_pressure a),
            (''min_material_temperature'', min_material_temperature a),
            (''max_material_temperature'', max_material_temperature a),
            (''min_motor_rpm'', min_motor_rpm a),
            (''max_motor_rpm'', max_motor_rpm a)])
      in case backend w req of
           Inl e \<Rightarrow> \<lparr>returned = Inl e, effects = [HttpGet req]\<rparr>
         | Inr results \<Rightarrow>
             \<lparr>returned = Inr (PyStr (resp_text results)),
              effects = [HttpGet req, Print (resp_text results)]\<rparr>)"

text \<open>
  The \<^verbatim>\<open>def\<close> line: how Python binds a call by keyword to the parameters. A keyword
  that names no parameter raises \<^verbatim>\<open>TypeError\<close>; so does a parameter without a
  default that the call leaves out; a parameter with a default takes it when left out.
  No body runs when the binding raises. (The keyword arguments of a call have distinct
  names; \<open>map_of\<close> reads the first entry of a name.)
\<close>

definition unexpected_keyword :: "string list \<Rightarrow> params \<Rightarrow> string option" where
  "unexpected_keyword names kw = find (\<lambda>k. k \<notin> set names) (map fst kw)"

definition keyword_or_default :: "params \<Rightarrow> string \<Rightarrow> pyval \<Rightarrow> pyval" where
  "keyword_or_default kw name dflt = (case map_of kw name of Some v \<Rightarrow> v | None \<Rightarrow> dflt)"

definition raise :: "error \<Rightarrow> outcome" where
  "raise e = \<lparr>returned = Inl e, effects = []\<rparr>"

definition machine_parameters :: "string list" where
  "machine_parameters =
     [''from_timestamp'', ''to_timestamp'',
      ''min_comb_op_tmp_1'', ''max_comb_op_tmp_1'',
      ''min_comb_op_tmp_2'', ''max_comb_op_tmp_2'',
      ''min_comb_op_tmp_3'', ''max_comb_op_tmp_3'',
      ''min_material_pressure'', ''max_material_pressure'',
      ''min_material_temperature'', ''max_material_temperature'',
      ''min_motor_rpm'', ''max_motor_rpm'']"

definition call_get_machine_data :: "config \<Rightarrow> world \<Rightarrow> params \<Rightarrow> outcome" where
  "call_get_machine_data cfg w kw =
     (case unexpected_keyword machine_parameters kw of
        Some k \<Rightarrow> raise (TypeError_unexpected k)
      | None \<Rightarrow>
         (case (map_of kw ''from_timestamp'', map_of kw ''to_timestamp'') of
            (None, None) \<Rightarrow> raise (TypeError_missing [''from_timestamp'', ''to_timestamp''])
          | (None, Some t) \<Rightarrow> raise (TypeError_missing [''from_timestamp''])
          | (Some f, None) \<Rightarrow> raise (TypeError_missing [''to_timestamp''])
          | (Some f, Some t) \<Rightarrow>
              get_machine_data cfg w
                \<lparr>from_timestamp = f,
                 to_timestamp = t,
                 min_comb_op_tmp_1 = keyword_or_default kw ''min_comb_op_tmp_1'' (PyInt 0),
                 max_comb_op_tmp_1 = keyword_or_default kw ''max_comb_op_tmp_1'' (PyInt 200),
                 min_comb_op_tmp_2 = keyword_or_default kw ''min_comb_op_tmp_2'' (PyInt 0),
                 max_comb_op_tmp_2 = keyword_or_default kw ''max_comb_op_tmp_2'' (PyInt 200),
                 min_comb_op_tmp_3 = keyword_or_default kw ''min_comb_op_tmp_3'' (PyInt 0),
                 max_comb_op_tmp_3 = keyword_or_default kw ''max_comb_op_tmp_3'' (PyInt 200),
                 min_material_pressure = keyword_or_default kw ''min_material_pressure'' (PyInt 0),
                 max_material_pressure = keyword_or_default kw ''max_material_pressure'' (PyInt 1000),
                 min_material_temperature = keyword_or_default kw ''min_material_temperature'' (PyInt 0),
                 max_material_temperature = keyword_or_default kw ''max_material_temperature'' (PyInt 200),
                 min_motor_rpm = keyword_or_default kw ''min_motor_rpm'' (PyInt 0),
                 max_motor_rpm = keyword_or_default kw ''max_motor_rpm'' (PyInt 3000)\<rparr>))"

subsection \<open>\<^verbatim>\<open>get_ambient\<close>\<close>

record ambient_args = time_args +
  min_value_humidity :: pyval
  max_value_humidity :: pyval
  min_value_amb_temperature :: pyval
  max_value_amb_temperature :: pyval
  min_value_zone_1_temperature :: pyval
  max_value_zone_1_temperature :: pyval

definition get_ambient :: "config \<Rightarrow> world \<Rightarrow> ambient_args \<Rightarrow> outcome" where
  "get_ambient cfg w a =
     (let req = (BACKEND_URL cfg @ ''/ambient'', Some [
            (''from_ts'', from_timestamp a),
            (''to_ts'', to_timestamp a),
            (''min_value_humidity'', min_value_humidity a),
            (''max_value_humidity'', max_value_humidity a),
            (''min_value_amb_temperature'', min_value_amb_temperature a),
            (''max_value_amb_temperature'', max_value_amb_temperature a),
            (''min_value_zone_1_temperature'', min_value_zone_1_temperature a),
            (''max_value_zone_1_temperature'', max_value_zone_1_temperature a)])
      in case backend w req of
           Inl e \<Rightarrow> \<lparr>returned = Inl e, effects = [HttpGet req]\<rparr>
         | Inr results \<Rightarrow>
             \<lparr>returned = Inr (PyStr (resp_text results)),
              effects = [HttpGet req, Print (resp_text results)]\<rparr>)"

definition ambient_parameters :: "string list" where
  "ambient_parameters =
     [''from_timestamp'', ''to_timestamp'',
      ''min_value_humidity'', ''max_value_humidity'',
      ''min_value_amb_temperature'', ''max_value_amb_temperature'',
      ''min_value_zone_1_temperature'', ''max_value_zone_1_temperature'']"

definition call_get_ambient :: "config \<Rightarrow> world \<Rightarrow> params \<Rightarrow> outcome" where
  "call_get_ambient cfg w kw =
     (case unexpected_keyword ambient_parameters kw of
        Some k \<Rightarrow> raise (TypeError_unexpected k)
      | None \<Rightarrow>
         (case (map_of kw ''from_timestamp'', map_of kw ''to_timestamp'') of
            (None, None) \<Rightarrow> raise (TypeError_missing [''from_timestamp'', ''to_timestamp''])
          | (None, Some t) \<Rightarrow> raise (TypeError_missing [''from_timestamp''])
          | (Some f, None) \<Rightarrow> raise (TypeError_missing [''to_timestamp''])
          | (Some f, Some t) \<Rightarrow>
              get_ambient cfg w
                \<lparr>from_timestamp = f,
                 to_timestamp = t,
                 min_value_humidity = keyword_or_default kw ''min_value_humidity'' (PyInt 0),
                 max_value_humidity = keyword_or_default kw ''max_value_humidity'' (PyInt 100),
                 min_value_amb_temperature = keyword_or_default kw ''min_value_amb_temperature'' (PyInt 0),
                 max_value_amb_temperature = keyword_or_default kw ''max_value_amb_temperature'' (PyInt 100),
                 min_value_zone_1_temperature = keyword_or_default kw ''min_value_zone_1_temperature'' (PyInt 0),
                 max_value_zone_1_temperature = keyword_or_default kw ''max_value_zone_1_temperature'' (PyInt 100)\<rparr>))"

subsection \<open>\<^verbatim>\<open>get_logs\<close>\<close>

definition get_logs :: "config \<Rightarrow> world \<Rightarrow> outcome" where
  "get_logs cfg w =
     (let req = (BACKEND_URL cfg @ ''/logs'', None)
      in case backend w req of
           Inl e \<Rightarrow> \<lparr>returned = Inl e, effects = [HttpGet req]\<rparr>
         | Inr results \<Rightarrow>
             \<lparr>returned = Inr (PyStr (resp_text results)),
              effects = [HttpGet req, Print (resp_text results)]\<rparr>)"

subsection \<open>\<^verbatim>\<open>query_documentation\<close> and \<^verbatim>\<open>visualize\<close>\<close>

text \<open>
  \<^verbatim>\<open>query_documentation\<close> first calls the constructor of
  \<^verbatim>\<open>AzureCognitiveSearchRetriever\<close> with five keyword arguments, one of them read
  from the environment variable \<^verbatim>\<open>AZURE_SEARCH_KEY\<close>. The class belongs to a
  library that is not part of the source, so its constructor is a parameter of the
  model: given the process environment (its validator reads it) and the keyword
  arguments, it raises or yields the object. An exception of the constructor leaves
  the tool, and \<^verbatim>\<open>return None\<close> is not reached. Every later step of the body is
  \<^verbatim>\<open>pass\<close>: the retriever is never asked anything, and the function ends in
  \<^verbatim>\<open>return None\<close>.
\<close>

record AzureCognitiveSearchRetriever =
  content_key :: string
  service_name :: string
  index_name :: string
  api_key :: "string option"
  top_k :: int

type_synonym retriever_class =
  "(string \<Rightarrow> string option) \<Rightarrow> AzureCognitiveSearchRetriever
     \<Rightarrow> error + AzureCognitiveSearchRetriever"

definition retriever_kwargs :: "world \<Rightarrow> AzureCognitiveSearchRetriever" where
  "retriever_kwargs w =
     \<lparr>content_key = ''content'',
      service_name = ''hackathon-v2-ai-search'',
      index_name = ''hackathon-v2-vector-idx-2'',
      api_key = environ w ''AZURE_SEARCH_KEY'',
      top_k = 10\<rparr>"

definition query_documentation ::
    "retriever_class \<Rightarrow> config \<Rightarrow> world \<Rightarrow> string \<Rightarrow> outcome" where
  "query_documentation new_retriever cfg w question =
     (case new_retriever (environ w) (retriever_kwargs w) of
        Inl e \<Rightarrow> \<lparr>returned = Inl e, effects = []\<rparr>
      | Inr retriever \<Rightarrow> \<lparr>returned = Inr PyNone, effects = []\<rparr>)"

text \<open>
  The body of \<^verbatim>\<open>visualize\<close> is four \<^verbatim>\<open>pass\<close> statements and \<^verbatim>\<open>return None\<close>.
\<close>

definition visualize :: "config \<Rightarrow> world \<Rightarrow> string \<Rightarrow> string \<Rightarrow> outcome" where
  "visualize cfg w table column = \<lparr>returned = Inr PyNone, effects = []\<rparr>"


section \<open>Sample configuration, worlds and arguments\<close>

text \<open>
  Concrete inputs on which the properties below are evaluated: a configuration, a world
  whose network is down, a world whose backend answers every request with a given body,
  and one that answers only at the listed URLs; none of the three has any environment
  variable set, and \<open>with_key\<close> sets \<^verbatim>\<open>AZURE_SEARCH_KEY\<close> in a world. The sample
  retriever class takes a key that is a non-empty string and refuses a missing or empty
  one, as the installed class does in an environment that holds no key under any name.
\<close>

definition example_config :: config where
  "example_config =
     \<lparr>DATABASE_DESCR = ''tables: machine, ambient, logs'',
      BACKEND_URL = ''http://localhost:5000''\<rparr>"

definition offline :: world where
  "offline =
     \<lparr>environ = (\<lambda>name. None),
      backend = (\<lambda>req. Inl (RequestException ''ConnectionError''))\<rparr>"

definition serving :: "string \<Rightarrow> world" where
  "serving body =
     \<lparr>environ = (\<lambda>name. None),
      backend = (\<lambda>req. Inr \<lparr>status_code = 200, resp_text = body\<rparr>)\<rparr>"

definition serving_at :: "string list \<Rightarrow> string \<Rightarrow> world" where
  "serving_at urls body =
     \<lparr>environ = (\<lambda>name. None),
      backend = (\<lambda>req. if fst req \<in> set urls
                         then Inr \<lparr>status_code = 200, resp_text = body\<rparr>
                         else Inl (RequestException ''ConnectionError''))\<rparr>"

definition with_key :: "string \<Rightarrow> world \<Rightarrow> world" where
  "with_key k w =
     w\<lparr>environ := (\<lambda>name. if name = ''AZURE_SEARCH_KEY'' then Some k else environ w name)\<rparr>"

definition key_checking_class :: retriever_class where
  "key_checking_class env kwargs =
     (case api_key kwargs of
        Some (c # cs) \<Rightarrow> Inr kwargs
      | _ \<Rightarrow> Inl (ValueError ''Did not find api_key''))"

definition inverted_machine_args :: machine_args where
  "inverted_machine_args =
     \<lparr>from_timestamp = PyStr ''yesterday'',
      to_timestamp = PyNone,
      min_comb_op_tmp_1 = PyInt 150, max_comb_op_tmp_1 = PyInt 20,
      min_comb_op_tmp_2 = PyInt 0, max_comb_op_tmp_2 = PyInt 200,
      min_comb_op_tmp_3 = PyInt 0, max_comb_op_tmp_3 = PyInt 200,
      min_material_pressure = PyInt 900, max_material_pressure = PyInt (- 1),
      min_material_temperature = PyInt 0, max_material_temperature = PyInt 200,
      min_motor_rpm = PyInt 3000, max_motor_rpm = PyInt 0\<rparr>"

definition example_ambient_args :: ambient_args where
  "example_ambient_args =
     \<lparr>from_timestamp = PyStr ''2024-01-01 00:00:00'',
      to_timestamp = PyStr ''2024-01-02 00:00:00'',
      min_value_humidity = PyInt 10, max_value_humidity = PyInt 60,
      min_value_amb_temperature = PyInt 0, max_value_amb_temperature = PyInt 100,
      min_value_zone_1_temperature = PyInt 0, max_value_zone_1_temperature = PyInt 100\<rparr>"


section \<open>Properties\<close>

subsection \<open>The request each telemetry tool sends\<close>

lemma unexpected_keyword_None:
  "unexpected_keyword names kw = None \<longleftrightarrow> set (map fst kw) \<subseteq> set names"
  by (auto simp: unexpected_keyword_def find_None_iff)

lemma machine_request:
  "requests_made (get_machine_data cfg w a) =
     [(BACKEND_URL cfg @ ''/machine'', Some [
        (''from_ts'', from_timestamp a),
        (''to_ts'', to_timestamp a),
        (''min_comb_op_tmp_1'', min_comb_op_tmp_1 a),
        (''max_comb_op_tmp_1'', max_comb_op_tmp_1 a),
        (''min_comb_op_tmp_2'', min_comb_op_tmp_2 a),
        (''max_comb_op_tmp_2'', max_comb_op_tmp_2 a),
        (''min_comb_op_tmp_3'', min_comb_op_tmp_3 a),
        (''max_comb_op_tmp_3'', max_comb_op_tmp_3 a),
        (''min_material_pressure'', min_material_pressure a),
        (''max_material_pressure'', max_material_pressure a),
        (''min_material_temperature'', min_material_temperature a),
        (''max_material_temperature'', max_material_temperature a),
        (''min_motor_rpm'', min_motor_rpm a),
        (''max_motor_rpm'', max_motor_rpm a)])]"
  by (simp add: get_machine_data_def requests_made_def Let_def split: sum.split)

lemma ambient_request:
  "requests_made (get_ambient cfg w a) =
     [(BACKEND_URL cfg @ ''/ambient'', Some [
        (''from_ts'', from_timestamp a),
        (''to_ts'', to_timestamp a),
        (''min_value_humidity'', min_value_humidity a),
        (''max_value_humidity'', max_value_humidity a),
        (''min_value_amb_temperature'', min_value_amb_temperature a),
        (''max_value_amb_temperature'', max_value_amb_temperature a),
        (''min_value_zone_1_temperature'', min_value_zone_1_temperature a),
        (''max_value_zone_1_temperature'', max_value_zone_1_temperature a)])]"
  by (simp add: get_ambient_def requests_made_def Let_def split: sum.split)

lemma logs_request:
  "requests_made (get_logs cfg w) = [(BACKEND_URL cfg @ ''/logs'', None)]"
  by (simp add: get_logs_def requests_made_def Let_def split: sum.split)

text \<open>The result of an HTTP tool is the backend's answer to that one request.\<close>

lemma machine_returned:
  "requests_made (get_machine_data cfg w a) = [r] \<Longrightarrow>
   returned (get_machine_data cfg w a) =
     (case backend w r of Inl e \<Rightarrow> Inl e | Inr results \<Rightarrow> Inr (PyStr (resp_text results)))"
  by (simp add: get_machine_data_def requests_made_def Let_def split: sum.splits)

lemma ambient_returned:
  "requests_made (get_ambient cfg w a) = [r] \<Longrightarrow>
   returned (get_ambient cfg w a) =
     (case backend w r of Inl e \<Rightarrow> Inl e | Inr results \<Rightarrow> Inr (PyStr (resp_text results)))"
  by (simp add: get_ambient_def requests_made_def Let_def split: sum.splits)

lemma logs_returned:
  "requests_made (get_logs cfg w) = [r] \<Longrightarrow>
   returned (get_logs cfg w) =
     (case backend w r of Inl e \<Rightarrow> Inl e | Inr results \<Rightarrow> Inr (PyStr (resp_text results)))"
  by (simp add: get_logs_def requests_made_def Let_def split: sum.splits)

subsection \<open>Binding a call that supplies both timestamps\<close>

lemma call_machine_bound:
  assumes "set (map fst kw) \<subseteq> set machine_parameters"
    and "map_of kw ''from_timestamp'' = Some f"
    and "map_of kw ''to_timestamp'' = Some t"
  shows "call_get_machine_data cfg w kw =
     get_machine_data cfg w
       \<lparr>from_timestamp = f,
        to_timestamp = t,
        min_comb_op_tmp_1 = keyword_or_default kw ''min_comb_op_tmp_1'' (PyInt 0),
        max_comb_op_tmp_1 = keyword_or_default kw ''max_comb_op_tmp_1'' (PyInt 200),
        min_comb_op_tmp_2 = keyword_or_default kw ''min_comb_op_tmp_2'' (PyInt 0),
        max_comb_op_tmp_2 = keyword_or_default kw ''max_comb_op_tmp_2'' (PyInt 200),
        min_comb_op_tmp_3 = keyword_or_default kw ''min_comb_op_tmp_3'' (PyInt 0),
        max_comb_op_tmp_3 = keyword_or_default kw ''max_comb_op_tmp_3'' (PyInt 200),
        min_material_pressure = keyword_or_default kw ''min_material_pressure'' (PyInt 0),
        max_material_pressure = keyword_or_default kw ''max_material_pressure'' (PyInt 1000),
        min_material_temperature = keyword_or_default kw ''min_material_temperature'' (PyInt 0),
        max_material_temperature = keyword_or_default kw ''max_material_temperature'' (PyInt 200),
        min_motor_rpm = keyword_or_default kw ''min_motor_rpm'' (PyInt 0),
        max_motor_rpm = keyword_or_default kw ''max_motor_rpm'' (PyInt 3000)\<rparr>"
proof -
  have "unexpected_keyword machine_parameters kw = None"
    using assms(1) by (simp only: unexpected_keyword_None)
  then show ?thesis
    using assms(2,3) by (simp add: call_get_machine_data_def)
qed

lemma call_ambient_bound:
  assumes "set (map fst kw) \<subseteq> set ambient_parameters"
    and "map_of kw ''from_timestamp'' = Some f"
    and "map_of kw ''to_timestamp'' = Some t"
  shows "call_get_ambient cfg w kw =
     get_ambient cfg w
       \<lparr>from_timestamp = f,
        to_timestamp = t,
        min_value_humidity = keyword_or_default kw ''min_value_humidity'' (PyInt 0),
        max_value_humidity = keyword_or_default kw ''max_value_humidity'' (PyInt 100),
        min_value_amb_temperature = keyword_or_default kw ''min_value_amb_temperature'' (PyInt 0),
        max_value_amb_temperature = keyword_or_default kw ''max_value_amb_temperature'' (PyInt 100),
        min_value_zone_1_temperature = keyword_or_default kw ''min_value_zone_1_temperature'' (PyInt 0),
        max_value_zone_1_temperature = keyword_or_default kw ''max_value_zone_1_temperature'' (PyInt 100)\<rparr>"
proof -
  have "unexpected_keyword ambient_parameters kw = None"
    using assms(1) by (simp only: unexpected_keyword_None)
  then show ?thesis
    using assms(2,3) by (simp add: call_get_ambient_def)
qed

lemma call_machine_missing:
  assumes "set (map fst kw) \<subseteq> set machine_parameters"
    and "map_of kw ''from_timestamp'' = None \<or> map_of kw ''to_timestamp'' = None"
  shows "\<exists>ms. call_get_machine_data cfg w kw = \<lparr>returned = Inl (TypeError_missing ms), effects = []\<rparr>"
proof -
  have "unexpected_keyword machine_parameters kw = None"
    using assms(1) by (simp only: unexpected_keyword_None)
  then show ?thesis
    using assms(2) by (auto simp: call_get_machine_data_def raise_def split: option.splits)
qed

lemma machine_defaults:
  assumes "set (map fst kw) \<subseteq> set machine_parameters"
    and "map_of kw ''from_timestamp'' = Some f"
    and "map_of kw ''to_timestamp'' = Some t"
  shows "\<exists>q. requests_made (call_get_machine_data cfg w kw) = [(BACKEND_URL cfg @ ''/machine'', Some q)]
     \<and> (\<forall>(p, d) \<in> set [(''min_comb_op_tmp_1'', 0), (''max_comb_op_tmp_1'', 200),
                        (''min_comb_op_tmp_2'', 0), (''max_comb_op_tmp_2'', 200),
                        (''min_comb_op_tmp_3'', 0), (''max_comb_op_tmp_3'', 200),
                        (''min_material_pressure'', 0), (''max_material_pressure'', 1000),
                        (''min_material_temperature'', 0), (''max_material_temperature'', 200),
                        (''min_motor_rpm'', 0), (''max_motor_rpm'', 3000)].
           map_of kw p = None \<longrightarrow> map_of q p = Some (PyInt d))"
  by (simp add: call_machine_bound[OF assms] machine_request keyword_or_default_def)

lemma ambient_defaults:
  assumes "set (map fst kw) \<subseteq> set ambient_parameters"
    and "map_of kw ''from_timestamp'' = Some f"
    and "map_of kw ''to_timestamp'' = Some t"
  shows "\<exists>q. requests_made (call_get_ambient cfg w kw) = [(BACKEND_URL cfg @ ''/ambient'', Some q)]
     \<and> (\<forall>(p, d) \<in> set [(''min_value_humidity'', 0), (''max_value_humidity'', 100),
                        (''min_value_amb_temperature'', 0), (''max_value_amb_temperature'', 100),
                        (''min_value_zone_1_temperature'', 0), (''max_value_zone_1_temperature'', 100)].
           map_of kw p = None \<longrightarrow> map_of q p = Some (PyInt d))"
  by (simp add: call_ambient_bound[OF assms] ambient_request keyword_or_default_def)

lemma machine_timestamps_only:
  "requests_made (call_get_machine_data cfg w
       [(''from_timestamp'', PyStr f), (''to_timestamp'', PyStr t)]) =
     [(BACKEND_URL cfg @ ''/machine'', Some [
        (''from_ts'', PyStr f), (''to_ts'', PyStr t),
        (''min_comb_op_tmp_1'', PyInt 0), (''max_comb_op_tmp_1'', PyInt 200),
        (''min_comb_op_tmp_2'', PyInt 0), (''max_comb_op_tmp_2'', PyInt 200),
        (''min_comb_op_tmp_3'', PyInt 0), (''max_comb_op_tmp_3'', PyInt 200),
        (''min_material_pressure'', PyInt 0), (''max_material_pressure'', PyInt 1000),
        (''min_material_temperature'', PyInt 0), (''max_material_temperature'', PyInt 200),
        (''min_motor_rpm'', PyInt 0), (''max_motor_rpm'', PyInt 3000)])]"
proof -
  have "set (map fst [(''from_timestamp'', PyStr f), (''to_timestamp'', PyStr t)])
          \<subseteq> set machine_parameters"
    by (simp add: machine_parameters_def)
  then show ?thesis
    by (simp add: call_machine_bound machine_request keyword_or_default_def)
qed

subsection \<open>What a tool hands back\<close>

text \<open>
  C1, as stated, fails: not every tool hands a string back on every input. With the
  network down, \<^verbatim>\<open>get_logs\<close> returns nothing (the exception of \<^verbatim>\<open>requests.get\<close>
  leaves the function), and \<^verbatim>\<open>query_documentation\<close> hands no string back either.
\<close>

theorem not_every_tool_returns_str:
  "\<not> returns_str (get_logs example_config offline)
   \<and> returned (get_logs example_config offline) = Inl (RequestException ''ConnectionError'')
   \<and> \<not> returns_str (query_documentation key_checking_class example_config (serving ''[]'')
              ''How is the motor cooled?'')"
  by (simp add: returns_str_def get_logs_def query_documentation_def example_config_def
      offline_def serving_def split: sum.split)

text \<open>
  C1, amended. \<^verbatim>\<open>get_db_info\<close> always returns a string. Each of
  \<^verbatim>\<open>get_machine_data\<close>, \<^verbatim>\<open>get_ambient\<close> and \<^verbatim>\<open>get_logs\<close> sends exactly one
  request; when the backend answers it, whatever the status, the tool returns the text
  of the response, a string, unchanged; when \<^verbatim>\<open>requests.get\<close> raises, that exception
  leaves the tool and no string is returned.
\<close>

theorem answered_tools_return_str:
  "returns_str (get_db_info cfg w)
   \<and> (\<exists>r. requests_made (get_machine_data cfg w m) = [r]
          \<and> returned (get_machine_data cfg w m) =
              (case backend w r of Inl e \<Rightarrow> Inl e | Inr results \<Rightarrow> Inr (PyStr (resp_text results))))
   \<and> (\<exists>r. requests_made (get_ambient cfg w a) = [r]
          \<and> returned (get_ambient cfg w a) =
              (case backend w r of Inl e \<Rightarrow> Inl e | Inr results \<Rightarrow> Inr (PyStr (resp_text results))))
   \<and> (\<exists>r. requests_made (get_logs cfg w) = [r]
          \<and> returned (get_logs cfg w) =
              (case backend w r of Inl e \<Rightarrow> Inl e | Inr results \<Rightarrow> Inr (PyStr (resp_text results))))"
proof -
  have db: "returns_str (get_db_info cfg w)"
    by (simp add: returns_str_def get_db_info_def)
  have machine: "\<exists>r. requests_made (get_machine_data cfg w m) = [r]
          \<and> returned (get_machine_data cfg w m) =
              (case backend w r of Inl e \<Rightarrow> Inl e | Inr results \<Rightarrow> Inr (PyStr (resp_text results)))"
    using machine_returned machine_request by blast
  have ambient: "\<exists>r. requests_made (get_ambient cfg w a) = [r]
          \<and> returned (get_ambient cfg w a) =
              (case backend w r of Inl e \<Rightarrow> Inl e | Inr results \<Rightarrow> Inr (PyStr (resp_text results)))"
    using ambient_returned ambient_request by blast
  have logs: "\<exists>r. requests_made (get_logs cfg w) = [r]
          \<and> returned (get_logs cfg w) =
              (case backend w r of Inl e \<Rightarrow> Inl e | Inr results \<Rightarrow> Inr (PyStr (resp_text results)))"
    using logs_returned logs_request by blast
  from db machine ambient logs show ?thesis by blast
qed

text \<open>
  C8. The database-description tool takes no argument, has no effect, cannot raise, and
  returns the configured description string whatever the state of the world: the
  environment and the network play no part in its outcome.
\<close>

theorem get_db_info_fixed:
  "get_db_info cfg w = \<lparr>returned = Inr (PyStr (DATABASE_DESCR cfg)), effects = []\<rparr>
   \<and> get_db_info cfg w = get_db_info cfg w'
   \<and> requests_made (get_db_info cfg w) = []
   \<and> returns_str (get_db_info cfg w)"
  by (simp add: get_db_info_def requests_made_def returns_str_def)

subsection \<open>Parameters and their defaults\<close>

text \<open>
  C2, as stated, fails: the two timestamps of \<^verbatim>\<open>get_machine_data\<close> have no default.
  A call that leaves \<^verbatim>\<open>from_timestamp\<close> out raises \<^verbatim>\<open>TypeError\<close> before the body
  runs, so no request is sent.
\<close>

theorem timestamp_cannot_be_omitted:
  "call_get_machine_data example_config (serving ''[]'')
       [(''to_timestamp'', PyStr ''2024-01-02 00:00:00'')]
     = \<lparr>returned = Inl (TypeError_missing [''from_timestamp'']), effects = []\<rparr>"
  by (simp add: call_get_machine_data_def unexpected_keyword_def machine_parameters_def raise_def)

text \<open>
  C2, amended. Of the fourteen parameters of \<^verbatim>\<open>get_machine_data\<close>, the twelve value
  bounds are optional: a call by keyword that supplies both timestamps and any
  selection of the bounds is bound without error and sends its one request. The two
  timestamps are required: a call that leaves either out raises \<^verbatim>\<open>TypeError\<close> and
  sends nothing. (A timestamp may be passed as \<^verbatim>\<open>None\<close>; it may not be left out.)
\<close>

theorem bounds_optional_timestamps_required:
  assumes "set (map fst kw) \<subseteq> set machine_parameters"
  shows "(map_of kw ''from_timestamp'' \<noteq> None \<and> map_of kw ''to_timestamp'' \<noteq> None \<longrightarrow>
            (\<exists>a. call_get_machine_data cfg w kw = get_machine_data cfg w a)
            \<and> length (requests_made (call_get_machine_data cfg w kw)) = 1)
       \<and> (map_of kw ''from_timestamp'' = None \<or> map_of kw ''to_timestamp'' = None \<longrightarrow>
            (\<exists>ms. call_get_machine_data cfg w kw =
                     \<lparr>returned = Inl (TypeError_missing ms), effects = []\<rparr>)
            \<and> requests_made (call_get_machine_data cfg w kw) = [])"
proof (intro conjI impI)
  assume both: "map_of kw ''from_timestamp'' \<noteq> None \<and> map_of kw ''to_timestamp'' \<noteq> None"
  then obtain f t where ft: "map_of kw ''from_timestamp'' = Some f" "map_of kw ''to_timestamp'' = Some t"
    by auto
  show "\<exists>a. call_get_machine_data cfg w kw = get_machine_data cfg w a"
    using call_machine_bound[OF assms ft] by blast
  then show "length (requests_made (call_get_machine_data cfg w kw)) = 1"
    by (auto simp: machine_request)
next
  assume one: "map_of kw ''from_timestamp'' = None \<or> map_of kw ''to_timestamp'' = None"
  show ex: "\<exists>ms. call_get_machine_data cfg w kw =
                 \<lparr>returned = Inl (TypeError_missing ms), effects = []\<rparr>"
    using call_machine_missing[OF assms one] .
  then show "requests_made (call_get_machine_data cfg w kw) = []"
    by (auto simp: requests_made_def)
qed

theorem bounds_optional_timestamps_required_witness:
  "set (map fst [(''from_timestamp'', PyNone), (''to_timestamp'', PyStr ''2024-01-02 00:00:00''),
                 (''max_motor_rpm'', PyInt 1500)]) \<subseteq> set machine_parameters
   \<and> length (requests_made (call_get_machine_data example_config offline
        [(''from_timestamp'', PyNone), (''to_timestamp'', PyStr ''2024-01-02 00:00:00''),
         (''max_motor_rpm'', PyInt 1500)])) = 1
   \<and> set (map fst [(''max_motor_rpm'', PyInt 1500)]) \<subseteq> set machine_parameters
   \<and> requests_made (call_get_machine_data example_config offline
        [(''max_motor_rpm'', PyInt 1500)]) = []"
proof -
  have given: "set (map fst [(''from_timestamp'', PyNone), (''to_timestamp'', PyStr ''2024-01-02 00:00:00''),
                 (''max_motor_rpm'', PyInt 1500)]) \<subseteq> set machine_parameters"
    by (simp add: machine_parameters_def)
  have left_out: "set (map fst [(''max_motor_rpm'', PyInt 1500)]) \<subseteq> set machine_parameters"
    by (simp add: machine_parameters_def)
  show ?thesis
    using given left_out
      bounds_optional_timestamps_required[OF given, of example_config offline]
      bounds_optional_timestamps_required[OF left_out, of example_config offline]
    by simp
qed

text \<open>
  C3. A value-range parameter that a call to a telemetry tool leaves out reaches the
  outgoing query with its documented default: 0 and 200 for each of the four machine
  temperatures, 0 and 1000 for the material pressure, 0 and 3000 for the motor speed,
  0 and 100 for each ambient quantity. In particular \<^verbatim>\<open>get_machine_data\<close> called with
  the two timestamps alone sends exactly these bounds.
\<close>

theorem omitted_bounds_take_defaults:
  "(set (map fst kw) \<subseteq> set machine_parameters
      \<and> map_of kw ''from_timestamp'' = Some f \<and> map_of kw ''to_timestamp'' = Some t \<longrightarrow>
      (\<exists>q. requests_made (call_get_machine_data cfg w kw) = [(BACKEND_URL cfg @ ''/machine'', Some q)]
         \<and> (\<forall>(p, d) \<in> set [(''min_comb_op_tmp_1'', 0), (''max_comb_op_tmp_1'', 200),
                            (''min_comb_op_tmp_2'', 0), (''max_comb_op_tmp_2'', 200),
                            (''min_comb_op_tmp_3'', 0), (''max_comb_op_tmp_3'', 200),
                            (''min_material_pressure'', 0), (''max_material_pressure'', 1000),
                            (''min_material_temperature'', 0), (''max_material_temperature'', 200),
                            (''min_motor_rpm'', 0), (''max_motor_rpm'', 3000)].
               map_of kw p = None \<longrightarrow> map_of q p = Some (PyInt d))))
   \<and> (set (map fst kw') \<subseteq> set ambient_parameters
      \<and> map_of kw' ''from_timestamp'' = Some f' \<and> map_of kw' ''to_timestamp'' = Some t' \<longrightarrow>
      (\<exists>q. requests_made (call_get_ambient cfg w kw') = [(BACKEND_URL cfg @ ''/ambient'', Some q)]
         \<and> (\<forall>(p, d) \<in> set [(''min_value_humidity'', 0), (''max_value_humidity'', 100),
                            (''min_value_amb_temperature'', 0), (''max_value_amb_temperature'', 100),
                            (''min_value_zone_1_temperature'', 0), (''max_value_zone_1_temperature'', 100)].
               map_of kw' p = None \<longrightarrow> map_of q p = Some (PyInt d))))
   \<and> requests_made (call_get_machine_data cfg w
         [(''from_timestamp'', PyStr ''2024-01-01 00:00:00''),
          (''to_timestamp'', PyStr ''2024-01-02 00:00:00'')]) =
       [(BACKEND_URL cfg @ ''/machine'', Some [
          (''from_ts'', PyStr ''2024-01-01 00:00:00''), (''to_ts'', PyStr ''2024-01-02 00:00:00''),
          (''min_comb_op_tmp_1'', PyInt 0), (''max_comb_op_tmp_1'', PyInt 200),
          (''min_comb_op_tmp_2'', PyInt 0), (''max_comb_op_tmp_2'', PyInt 200),
          (''min_comb_op_tmp_3'', PyInt 0), (''max_comb_op_tmp_3'', PyInt 200),
          (''min_material_pressure'', PyInt 0), (''max_material_pressure'', PyInt 1000),
          (''min_material_temperature'', PyInt 0), (''max_material_temperature'', PyInt 200),
          (''min_motor_rpm'', PyInt 0), (''max_motor_rpm'', PyInt 3000)])]"
  using machine_defaults[of kw f t cfg w] ambient_defaults[of kw' f' t' cfg w]
    machine_timestamps_only[of cfg w "''2024-01-01 00:00:00''" "''2024-01-02 00:00:00''"]
  by blast

theorem omitted_bounds_take_defaults_witness:
  "(set (map fst [(''from_timestamp'', PyStr ''2024-01-01 00:00:00''),
                  (''to_timestamp'', PyStr ''2024-01-02 00:00:00''),
                  (''max_motor_rpm'', PyInt 1500)]) \<subseteq> set machine_parameters
    \<and> (\<exists>q. requests_made (call_get_machine_data example_config (serving ''[]'')
                 [(''from_timestamp'', PyStr ''2024-01-01 00:00:00''),
                  (''to_timestamp'', PyStr ''2024-01-02 00:00:00''),
                  (''max_motor_rpm'', PyInt 1500)])
               = [(BACKEND_URL example_config @ ''/machine'', Some q)]
           \<and> map_of q ''min_motor_rpm'' = Some (PyInt 0)
           \<and> map_of q ''max_material_pressure'' = Some (PyInt 1000)
           \<and> map_of q ''max_comb_op_tmp_3'' = Some (PyInt 200)))
   \<and> (set (map fst [(''from_timestamp'', PyStr ''2024-01-01 00:00:00''),
                    (''to_timestamp'', PyNone),
                    (''min_value_humidity'', PyInt 30)]) \<subseteq> set ambient_parameters
    \<and> (\<exists>q. requests_made (call_get_ambient example_config (serving ''[]'')
                 [(''from_timestamp'', PyStr ''2024-01-01 00:00:00''),
                  (''to_timestamp'', PyNone),
                  (''min_value_humidity'', PyInt 30)])
               = [(BACKEND_URL example_config @ ''/ambient'', Some q)]
           \<and> map_of q ''max_value_humidity'' = Some (PyInt 100)
           \<and> map_of q ''min_value_zone_1_temperature'' = Some (PyInt 0)))"
proof -
  have machine_kw: "set (map fst [(''from_timestamp'', PyStr ''2024-01-01 00:00:00''),
                  (''to_timestamp'', PyStr ''2024-01-02 00:00:00''),
                  (''max_motor_rpm'', PyInt 1500)]) \<subseteq> set machine_parameters"
    by (simp add: machine_parameters_def)
  have ambient_kw: "set (map fst [(''from_timestamp'', PyStr ''2024-01-01 00:00:00''),
                    (''to_timestamp'', PyNone),
                    (''min_value_humidity'', PyInt 30)]) \<subseteq> set ambient_parameters"
    by (simp add: ambient_parameters_def)
  show ?thesis
    using machine_kw ambient_kw
      omitted_bounds_take_defaults[of
        "[(''from_timestamp'', PyStr ''2024-01-01 00:00:00''),
          (''to_timestamp'', PyStr ''2024-01-02 00:00:00''),
          (''max_motor_rpm'', PyInt 1500)]"
        "PyStr ''2024-01-01 00:00:00''" "PyStr ''2024-01-02 00:00:00''"
        example_config "serving ''[]''"
        "[(''from_timestamp'', PyStr ''2024-01-01 00:00:00''),
          (''to_timestamp'', PyNone),
          (''min_value_humidity'', PyInt 30)]"
        "PyStr ''2024-01-01 00:00:00''" PyNone]
    by simp blast
qed

subsection \<open>What reaches the backend\<close>

text \<open>
  C4. Whatever two timestamp strings \<^verbatim>\<open>get_machine_data\<close> and \<^verbatim>\<open>get_ambient\<close> are
  given (so in particular a pair with from \<open>\<le>\<close> to), and whatever the other arguments,
  the one request each tool sends carries the first string under \<^verbatim>\<open>from_ts\<close> and the
  second under \<^verbatim>\<open>to_ts\<close>, exactly as given.
\<close>

theorem timestamps_forwarded_unmodified:
  "(\<exists>q. requests_made (get_machine_data cfg w (m\<lparr>from_timestamp := PyStr f, to_timestamp := PyStr t\<rparr>))
           = [(BACKEND_URL cfg @ ''/machine'', Some q)]
        \<and> map_of q ''from_ts'' = Some (PyStr f) \<and> map_of q ''to_ts'' = Some (PyStr t))
   \<and> (\<exists>q. requests_made (get_ambient cfg w (a\<lparr>from_timestamp := PyStr f, to_timestamp := PyStr t\<rparr>))
           = [(BACKEND_URL cfg @ ''/ambient'', Some q)]
        \<and> map_of q ''from_ts'' = Some (PyStr f) \<and> map_of q ''to_ts'' = Some (PyStr t))"
  by (simp add: machine_request ambient_request)

text \<open>
  C7. \<^verbatim>\<open>get_machine_data\<close> checks nothing: for every combination of the fourteen
  argument values (a minimum above its maximum, a timestamp in no known format, values
  of any type) it sends one request whose query holds each value as given, and its
  result is the backend's answer to that request. No call is turned down locally.
\<close>

theorem machine_filters_forwarded_unvalidated:
  "\<exists>r. r = (BACKEND_URL cfg @ ''/machine'', Some [
               (''from_ts'', from_timestamp m),
               (''to_ts'', to_timestamp m),
               (''min_comb_op_tmp_1'', min_comb_op_tmp_1 m),
               (''max_comb_op_tmp_1'', max_comb_op_tmp_1 m),
               (''min_comb_op_tmp_2'', min_comb_op_tmp_2 m),
               (''max_comb_op_tmp_2'', max_comb_op_tmp_2 m),
               (''min_comb_op_tmp_3'', min_comb_op_tmp_3 m),
               (''max_comb_op_tmp_3'', max_comb_op_tmp_3 m),
               (''min_material_pressure'', min_material_pressure m),
               (''max_material_pressure'', max_material_pressure m),
               (''min_material_temperature'', min_material_temperature m),
               (''max_material_temperature'', max_material_temperature m),
               (''min_motor_rpm'', min_motor_rpm m),
               (''max_motor_rpm'', max_motor_rpm m)])
      \<and> requests_made (get_machine_data cfg w m) = [r]
      \<and> returned (get_machine_data cfg w m) =
          (case backend w r of Inl e \<Rightarrow> Inl e | Inr results \<Rightarrow> Inr (PyStr (resp_text results)))"
  using machine_request[of cfg w m] machine_returned[of cfg w m] by blast

subsection \<open>The unimplemented tools\<close>

text \<open>
  C10, as stated, fails for \<^verbatim>\<open>query_documentation\<close>: the function does not return
  \<^verbatim>\<open>None\<close> for every question in every environment. Where \<^verbatim>\<open>AZURE_SEARCH_KEY\<close>
  is not set, the constructor it calls first refuses the missing key, and the exception
  leaves the function before \<^verbatim>\<open>return None\<close>.
\<close>

theorem query_documentation_raises_without_key:
  "query_documentation key_checking_class example_config (serving ''[]'')
       ''How is the motor cooled?''
     = \<lparr>returned = Inl (ValueError ''Did not find api_key''), effects = []\<rparr>"
  by (simp add: query_documentation_def key_checking_class_def retriever_kwargs_def serving_def)

text \<open>
  C10, amended. \<^verbatim>\<open>visualize\<close> returns \<^verbatim>\<open>None\<close> for every table and column, in every
  state of the world, with no effect (no request is sent, nothing is printed, plotted or
  stored). \<^verbatim>\<open>query_documentation\<close> has no effect either, for any question; it
  returns \<^verbatim>\<open>None\<close> for every question whenever the constructor of the retriever
  returns, and when the constructor raises, that exception is the outcome.
\<close>

theorem stubs_return_None_once_constructed:
  "visualize cfg w table column = \<lparr>returned = Inr PyNone, effects = []\<rparr>
   \<and> requests_made (visualize cfg w table column) = []
   \<and> effects (query_documentation new_retriever cfg w question) = []
   \<and> requests_made (query_documentation new_retriever cfg w question) = []
   \<and> (\<forall>retriever. new_retriever (environ w) (retriever_kwargs w) = Inr retriever \<longrightarrow>
         query_documentation new_retriever cfg w question
           = \<lparr>returned = Inr PyNone, effects = []\<rparr>)
   \<and> (\<forall>e. new_retriever (environ w) (retriever_kwargs w) = Inl e \<longrightarrow>
         query_documentation new_retriever cfg w question
           = \<lparr>returned = Inl e, effects = []\<rparr>)"
  by (simp add: query_documentation_def visualize_def requests_made_def split: sum.split)

theorem stubs_return_None_once_constructed_witness:
  "key_checking_class (environ (with_key ''key'' (serving ''[]'')))
       (retriever_kwargs (with_key ''key'' (serving ''[]'')))
     = Inr (retriever_kwargs (with_key ''key'' (serving ''[]'')))
   \<and> query_documentation key_checking_class example_config (with_key ''key'' (serving ''[]''))
         ''How is the motor cooled?''
       = \<lparr>returned = Inr PyNone, effects = []\<rparr>
   \<and> key_checking_class (environ offline) (retriever_kwargs offline)
       = Inl (ValueError ''Did not find api_key'')
   \<and> query_documentation key_checking_class example_config offline ''How is the motor cooled?''
       = \<lparr>returned = Inl (ValueError ''Did not find api_key''), effects = []\<rparr>"
proof -
  have built: "key_checking_class (environ (with_key ''key'' (serving ''[]'')))
       (retriever_kwargs (with_key ''key'' (serving ''[]'')))
     = Inr (retriever_kwargs (with_key ''key'' (serving ''[]'')))"
    by (simp add: key_checking_class_def retriever_kwargs_def with_key_def)
  have refused: "key_checking_class (environ offline) (retriever_kwargs offline)
       = Inl (ValueError ''Did not find api_key'')"
    by (simp add: key_checking_class_def retriever_kwargs_def offline_def)
  show ?thesis
    using built refused
      stubs_return_None_once_constructed[of example_config "with_key ''key'' (serving ''[]'')" _ _
        key_checking_class "''How is the motor cooled?''"]
      stubs_return_None_once_constructed[of example_config offline _ _
        key_checking_class "''How is the motor cooled?''"]
    by simp
qed

text \<open>
  C5 does not hold of the code. \<^verbatim>\<open>query_documentation\<close> never consults the index:
  with the key set it returns \<^verbatim>\<open>None\<close> for the question below as for every other,
  whatever the index would have yielded, and without the key it raises. In no world
  and for no question is the result a string, so it is never a fixed ``no answer
  found'' string.
\<close>

theorem query_documentation_never_answers:
  "query_documentation key_checking_class example_config (with_key ''key'' (serving ''[]''))
       ''How do I reset the extruder?''
     = \<lparr>returned = Inr PyNone, effects = []\<rparr>
   \<and> \<not> returns_str (query_documentation new_retriever cfg w question)"
  by (simp add: query_documentation_def returns_str_def key_checking_class_def
      retriever_kwargs_def with_key_def split: sum.split)

text \<open>
  C6 does not hold of the code. For a table name that names no table, \<^verbatim>\<open>visualize\<close>
  sends no request, but it does not fail either: it returns \<^verbatim>\<open>None\<close>, with no error
  and no description.
\<close>

theorem visualize_unknown_table_returns_None:
  "visualize example_config (serving ''[]'') ''no_such_table'' ''motor_rpm''
     = \<lparr>returned = Inr PyNone, effects = []\<rparr>"
  by (simp add: visualize_def)

subsection \<open>Determinism\<close>

text \<open>
  C9. Every tool is a function of its arguments, the configuration and the backend's
  answer: run with the same arguments in two worlds where the backend answers the
  request the tool sends in the same way, a tool has the same outcome (value returned or
  exception raised, and effects) in both, however else the worlds differ.
  \<^verbatim>\<open>get_db_info\<close> and \<^verbatim>\<open>visualize\<close> have the same outcome in any two worlds, and
  \<^verbatim>\<open>query_documentation\<close>, which sends no request but hands the environment to the
  constructor of the retriever, in any two worlds with the same environment.
\<close>

theorem tools_deterministic:
  "get_db_info cfg w2 = get_db_info cfg w1
   \<and> ((\<forall>r \<in> set (requests_made (get_machine_data cfg w1 m)). backend w2 r = backend w1 r)
        \<longrightarrow> get_machine_data cfg w2 m = get_machine_data cfg w1 m)
   \<and> ((\<forall>r \<in> set (requests_made (get_ambient cfg w1 a)). backend w2 r = backend w1 r)
        \<longrightarrow> get_ambient cfg w2 a = get_ambient cfg w1 a)
   \<and> ((\<forall>r \<in> set (requests_made (get_logs cfg w1)). backend w2 r = backend w1 r)
        \<longrightarrow> get_logs cfg w2 = get_logs cfg w1)
   \<and> (environ w2 = environ w1
        \<longrightarrow> query_documentation new_retriever cfg w2 question
              = query_documentation new_retriever cfg w1 question)
   \<and> visualize cfg w2 table column = visualize cfg w1 table column"
proof -
  have machine: "(\<forall>r \<in> set (requests_made (get_machine_data cfg w1 m)). backend w2 r = backend w1 r)
        \<longrightarrow> get_machine_data cfg w2 m = get_machine_data cfg w1 m"
    unfolding machine_request by (simp add: get_machine_data_def Let_def)
  have ambient: "(\<forall>r \<in> set (requests_made (get_ambient cfg w1 a)). backend w2 r = backend w1 r)
        \<longrightarrow> get_ambient cfg w2 a = get_ambient cfg w1 a"
    unfolding ambient_request by (simp add: get_ambient_def Let_def)
  have logs: "(\<forall>r \<in> set (requests_made (get_logs cfg w1)). backend w2 r = backend w1 r)
        \<longrightarrow> get_logs cfg w2 = get_logs cfg w1"
    unfolding logs_request by (simp add: get_logs_def Let_def)
  have rest: "get_db_info cfg w2 = get_db_info cfg w1"
    "environ w2 = environ w1
        \<longrightarrow> query_documentation new_retriever cfg w2 question
              = query_documentation new_retriever cfg w1 question"
    "visualize cfg w2 table column = visualize cfg w1 table column"
    by (simp_all add: get_db_info_def query_documentation_def retriever_kwargs_def visualize_def)
  from machine ambient logs rest show ?thesis by blast
qed

theorem tools_deterministic_witness:
  "list_all
      (\<lambda>r. backend (with_key ''key'' (serving_at [''http://localhost:5000/machine'',
          ''http://localhost:5000/ambient'', ''http://localhost:5000/logs''] ''[]'')) r
             = backend (with_key ''key'' (serving ''[]'')) r)
      (requests_made (get_machine_data example_config (with_key ''key'' (serving ''[]'')) inverted_machine_args)
       @ requests_made (get_ambient example_config (with_key ''key'' (serving ''[]'')) example_ambient_args)
       @ requests_made (get_logs example_config (with_key ''key'' (serving ''[]''))))
   \<and> get_machine_data example_config
        (with_key ''key'' (serving_at [''http://localhost:5000/machine'',
          ''http://localhost:5000/ambient'', ''http://localhost:5000/logs''] ''[]'')) inverted_machine_args
       = get_machine_data example_config (with_key ''key'' (serving ''[]'')) inverted_machine_args
   \<and> get_ambient example_config
        (with_key ''key'' (serving_at [''http://localhost:5000/machine'',
          ''http://localhost:5000/ambient'', ''http://localhost:5000/logs''] ''[]'')) example_ambient_args
       = get_ambient example_config (with_key ''key'' (serving ''[]'')) example_ambient_args
   \<and> get_logs example_config
        (with_key ''key'' (serving_at [''http://localhost:5000/machine'',
          ''http://localhost:5000/ambient'', ''http://localhost:5000/logs''] ''[]''))
       = get_logs example_config (with_key ''key'' (serving ''[]''))
   \<and> environ (with_key ''key'' (serving_at [''http://localhost:5000/machine'',
          ''http://localhost:5000/ambient'', ''http://localhost:5000/logs''] ''[]''))
       = environ (with_key ''key'' (serving ''[]''))
   \<and> query_documentation key_checking_class example_config
        (with_key ''key'' (serving_at [''http://localhost:5000/machine'',
          ''http://localhost:5000/ambient'', ''http://localhost:5000/logs''] ''[]'')) ''How is the motor cooled?''
       = query_documentation key_checking_class example_config (with_key ''key'' (serving ''[]''))
           ''How is the motor cooled?''
   \<and> backend (with_key ''key'' (serving_at [''http://localhost:5000/machine'',
          ''http://localhost:5000/ambient'', ''http://localhost:5000/logs''] ''[]'')) (''http://localhost:5000/qa'', None)
       \<noteq> backend (with_key ''key'' (serving ''[]'')) (''http://localhost:5000/qa'', None)"
proof -
  have same_environ: "environ (with_key ''key'' (serving_at [''http://localhost:5000/machine'',
          ''http://localhost:5000/ambient'', ''http://localhost:5000/logs''] ''[]''))
       = environ (with_key ''key'' (serving ''[]''))"
    by (simp add: with_key_def serving_def serving_at_def fun_eq_iff)
  show ?thesis
    using same_environ
      tools_deterministic[of example_config
        "with_key ''key'' (serving_at [''http://localhost:5000/machine'',
          ''http://localhost:5000/ambient'', ''http://localhost:5000/logs''] ''[]'')"
        "with_key ''key'' (serving ''[]'')" inverted_machine_args example_ambient_args
        key_checking_class "''How is the motor cooled?''"]
    by (simp add: machine_request ambient_request logs_request example_config_def
        serving_def serving_at_def with_key_def)
qed

end
